theory Spec2Isabelle
  imports Complex_Main "HOL-Library.Multiset" "HOL-Library.AList"
begin

section \<open>Strings\<close>

text \<open>
  JavaScript strings are modelled as \<open>string\<close> (lists of 8-bit characters), so the
  model covers ASCII text. A property of a JavaScript object that may be missing
  (\<open>undefined\<close> or \<open>null\<close>) is an \<open>option\<close>; a string is truthy when it is present and
  not empty.
\<close>

definition truthy :: "string option \<Rightarrow> bool" where
  "truthy v = (case v of None \<Rightarrow> False | Some s \<Rightarrow> s \<noteq> [])"

text \<open>\<open>v || d\<close> on an optional string.\<close>

definition or_else :: "string option \<Rightarrow> string \<Rightarrow> string" where
  "or_else v d = (case v of None \<Rightarrow> d | Some s \<Rightarrow> (if s = [] then d else s))"

definition startsWith :: "string \<Rightarrow> string \<Rightarrow> bool" where
  "startsWith s p = (take (length p) s = p)"

definition endsWith :: "string \<Rightarrow> string \<Rightarrow> bool" where
  "endsWith s p = (length p \<le> length s \<and> drop (length s - length p) s = p)"

fun str_includes :: "string \<Rightarrow> string \<Rightarrow> bool" where
  "str_includes [] p = (p = [])"
| "str_includes (c # cs) p = (startsWith (c # cs) p \<or> str_includes cs p)"

definition is_digit :: "char \<Rightarrow> bool" where
  "is_digit c = (c \<in> set ''0123456789'')"




text \<open>The white space that \<open>trim\<close> and \<open>parseInt\<close> skip, as far as it is ASCII.\<close>

definition is_space :: "char \<Rightarrow> bool" where
  "is_space c = (of_char c \<in> {9, 10, 11, 12, 13, 32 :: nat})"

definition digit_char :: "nat \<Rightarrow> char" where
  "digit_char d = char_of (48 + d)"

text \<open>The decimal text of a non-negative integer, as \<open>String(n)\<close> gives it.\<close>

fun show_nat :: "nat \<Rightarrow> string" where
  "show_nat n =
     (if n < 10 then [digit_char n] else show_nat (n div 10) @ [digit_char (n mod 10)])"

declare show_nat.simps [simp del]

text \<open>The same for an integer, computed on integers.\<close>

function show_digits :: "int \<Rightarrow> string" where
  "show_digits n =
     (if n < 10 then [char_of (48 + n)] else show_digits (n div 10) @ [char_of (48 + n mod 10)])"
  by pat_completeness auto
termination
  by (relation "measure nat") auto

declare show_digits.simps [simp del]

definition show_int :: "int \<Rightarrow> string" where
  "show_int i = (if i < 0 then CHR ''-'' # show_digits (- i) else show_digits i)"




section \<open>Format Translator (the \<open>/api/info\<close> handler)\<close>

text \<open>
  One element of the Extractor's \<open>formats\<close> array, with the fields the handler reads.
  Sizes and heights are integers, \<open>tbr\<close> is a rational number.
\<close>

record raw_format =
  vcodec :: "string option"
  acodec :: "string option"
  ext :: "string option"
  filesize :: "int option"
  filesize_approx :: "int option"
  tbr :: "rat option"
  format_id :: "string option"
  height :: "int option"
  format_note :: "string option"















section \<open>Files, paths and effects\<close>

text \<open>
  The file system is an association list from path to content. \<open>path.join\<close> is used
  only to put one file name under a directory and \<open>path.basename\<close> to take the last
  component of a path; both are modelled with the POSIX separator.
\<close>

type_synonym filesystem = "(string \<times> string) list"

definition existsSync :: "filesystem \<Rightarrow> string \<Rightarrow> bool" where
  "existsSync fs p = (map_of fs p \<noteq> None)"

definition write_files :: "(string \<times> string) list \<Rightarrow> filesystem \<Rightarrow> filesystem" where
  "write_files ws fs = foldl (\<lambda>acc (p, c). AList.update p c acc) fs ws"

definition path_join :: "string \<Rightarrow> string \<Rightarrow> string" where
  "path_join dir name = dir @ ''/'' @ name"

definition basename :: "string \<Rightarrow> string" where
  "basename p =
     rev (takeWhile (\<lambda>c. c \<noteq> CHR ''/'') (dropWhile (\<lambda>c. c = CHR ''/'') (rev p)))"

text \<open>\<open>fs.readdirSync(dir)\<close>: the names of the files directly under \<open>dir\<close>.\<close>

definition readdirSync :: "filesystem \<Rightarrow> string \<Rightarrow> string list" where
  "readdirSync fs dir =
     map (\<lambda>p. drop (length dir + 1) p)
       (filter (\<lambda>p. startsWith p (dir @ ''/'') \<and> CHR ''/'' \<notin> set (drop (length dir + 1) p))
          (map fst fs))"

text \<open>
  The payloads given to \<open>progressEmitter.emit('progress', ...)\<close>, one constructor for
  each shape the server emits. A percentage scraped from the Extractor's output is kept
  as the matched text (the argument of \<open>parseFloat\<close>).
\<close>

datatype progress_event =
    Percent string
  | Status string
  | StatusPercent string int
  | Failure string
  | FailureDetails string string
  | Complete string

text \<open>
  What a run does to the world outside, in order. Console output is left out. The
  model records, for each spawned process, the one callback that settles the promise
  waiting for it; callbacks that Node delivers afterwards for the same process cannot
  settle it again and are left out.
\<close>

datatype effect =
    Spawn string "string list"
  | SetTimeout int
  | ClearTimeout
  | Kill
  | Emit progress_event
  | Sleep int
  | HttpGet string string

record world =
  trace :: "effect list"
  files :: filesystem

definition log_effects :: "effect list \<Rightarrow> world \<Rightarrow> world" where
  "log_effects es w = w\<lparr>trace := trace w @ es\<rparr>"

text \<open>\<open>`${code}`\<close> for an exit code; \<open>None\<close> is \<open>null\<close> (the process was killed by a signal).\<close>

definition show_code :: "int option \<Rightarrow> string" where
  "show_code code = (case code of None \<Rightarrow> ''null'' | Some c \<Rightarrow> show_int c)"

definition backslash :: char where
  "backslash = CHR 0x5C"

definition ffmpegPath :: string where
  "ffmpegPath = ''C:'' @ [backslash] @ ''ffmpeg'' @ [backslash] @ ''bin'' @ [backslash] @ ''ffmpeg.exe''"

section \<open>Metadata Embedder (\<open>embedMetadata\<close>)\<close>

record metadata =
  md_title :: "string option"
  md_artist :: "string option"
  md_thumbnail :: "string option"

text \<open>
  The behaviour of the collaborators during one call: the identifier \<open>uuidv4()\<close> returns,
  how \<open>downloadToFile\<close> ends (the image it stored at the destination, or a message and
  the partial file it left there, if any), and how the Transcoder ends (its exit code, its
  standard error and the file it wrote at its output path, or a failure to start).
\<close>

datatype download_end = Downloaded string | DownloadFailed string "string option"

datatype ffmpeg_end = FfClose "int option" string "string option" | FfSpawnError string

record embed_env =
  thumb_uuid :: string
  thumb_download :: download_end
  ffmpeg_run :: ffmpeg_end

definition to_lower :: "char \<Rightarrow> char" where
  "to_lower c =
     (if 65 \<le> (of_char c :: nat) \<and> (of_char c :: nat) \<le> 90 then char_of (of_char c + 32 :: nat)
      else c)"

text \<open>\<open>/^https?:\/\//i.test(s)\<close>\<close>

definition is_http_url :: "string \<Rightarrow> bool" where
  "is_http_url s =
     (startsWith (map to_lower s) ''http://'' \<or> startsWith (map to_lower s) ''https://'')"

definition temp_path :: "string \<Rightarrow> string \<Rightarrow> string" where
  "temp_path downloadsDir filePath = path_join downloadsDir (''meta_temp_'' @ basename filePath)"

definition thumb_file :: "string \<Rightarrow> string \<Rightarrow> string" where
  "thumb_file downloadsDir uuid = path_join downloadsDir (''thumb_'' @ uuid @ ''.jpg'')"

text \<open>
  The first \<open>if\<close> of \<open>embedMetadata\<close>: the value of \<open>thumbPath\<close> after it, and the world
  after the download it may have made.
\<close>

definition resolve_thumb ::
  "string \<Rightarrow> metadata option \<Rightarrow> embed_env \<Rightarrow> world \<Rightarrow> string option \<times> world" where
  "resolve_thumb downloadsDir md e w =
     (case md of
        None \<Rightarrow> (None, w)
      | Some m \<Rightarrow>
          if truthy (md_thumbnail m) \<and> is_http_url (the (md_thumbnail m)) then
            (let thumbPath = thumb_file downloadsDir (thumb_uuid e);
                 w1 = log_effects [HttpGet (the (md_thumbnail m)) thumbPath] w
             in case thumb_download e of
                  Downloaded img \<Rightarrow>
                    (Some thumbPath, w1\<lparr>files := AList.update thumbPath img (files w1)\<rparr>)
                | DownloadFailed msg partial \<Rightarrow>
                    (None,
                     case partial of
                       None \<Rightarrow> w1
                     | Some img \<Rightarrow> w1\<lparr>files := AList.update thumbPath img (files w1)\<rparr>))
          else if truthy (md_thumbnail m) \<and> existsSync (files w) (the (md_thumbnail m)) then
            (md_thumbnail m, w)
          else (None, w))"

text \<open>The argument list of the Transcoder (\<open>// Build ffmpeg args\<close>).\<close>

definition ffmpeg_args :: "string \<Rightarrow> string \<Rightarrow> metadata \<Rightarrow> string option \<Rightarrow> string list" where
  "ffmpeg_args filePath tempPath m thumbPath =
     (if truthy thumbPath then
        [''-i'', filePath,
         ''-i'', the thumbPath,
         ''-map'', ''0'',
         ''-map'', ''1'',
         ''-c'', ''copy'',
         ''-metadata'', ''title='' @ or_else (md_title m) [],
         ''-metadata'', ''artist='' @ or_else (md_artist m) [],
         ''-metadata'', ''comment=Downloaded with ULTRA Downloader'',
         ''-disposition:v:1'', ''attached_pic'',
         tempPath]
      else
        [''-i'', filePath,
         ''-c'', ''copy'',
         ''-metadata'', ''title='' @ or_else (md_title m) [],
         ''-metadata'', ''artist='' @ or_else (md_artist m) [],
         ''-metadata'', ''comment=Downloaded with ULTRA Downloader'',
         tempPath])"

text \<open>
  The \<open>close\<close> handler on exit code 0: \<open>renameSync\<close> throws when the temporary file is
  missing, and the \<open>catch\<close> around it then skips the removal of the thumbnail.
\<close>

definition replace_and_cleanup :: "string \<Rightarrow> string \<Rightarrow> string option \<Rightarrow> filesystem \<Rightarrow> filesystem" where
  "replace_and_cleanup filePath tempPath thumbPath fs =
     (case map_of fs tempPath of
        None \<Rightarrow> fs
      | Some c \<Rightarrow>
          (let fs1 = AList.update filePath c (AList.delete tempPath fs)
           in if truthy thumbPath \<and> str_includes (the thumbPath) ''thumb_''
                 \<and> existsSync fs1 (the thumbPath)
              then AList.delete (the thumbPath) fs1
              else fs1))"

text \<open>
  \<open>embedMetadata(filePath, metadata)\<close>. The result is \<open>Inr ()\<close> when the promise resolves
  and \<open>Inl message\<close> when it rejects. Reading \<open>metadata.title\<close> of a missing \<open>metadata\<close>
  throws inside the \<open>try\<close>, which rethrows.
\<close>

definition embedMetadata ::
  "string \<Rightarrow> string \<Rightarrow> metadata option \<Rightarrow> embed_env \<Rightarrow> world \<Rightarrow> (string + unit) \<times> world" where
  "embedMetadata downloadsDir filePath md e w =
     (let tempPath = temp_path downloadsDir filePath;
          (thumbPath, w1) = resolve_thumb downloadsDir md e w
      in case md of
           None \<Rightarrow> (Inl ''Cannot read properties of undefined (reading 'title')'', w1)
         | Some m \<Rightarrow>
             (let w2 = log_effects [Spawn ffmpegPath (ffmpeg_args filePath tempPath m thumbPath)] w1
              in case ffmpeg_run e of
                   FfSpawnError msg \<Rightarrow> (Inl msg, w2)
                 | FfClose code stderr out \<Rightarrow>
                     (let w3 = (case out of
                                  None \<Rightarrow> w2
                                | Some c \<Rightarrow> w2\<lparr>files := AList.update tempPath c (files w2)\<rparr>)
                      in if code = Some 0 then
                           (Inr (),
                            w3\<lparr>files := replace_and_cleanup filePath tempPath thumbPath (files w3)\<rparr>)
                         else
                           (Inl (''FFmpeg exited with code '' @ show_code code
                                 @ ''. Stderr: '' @ stderr), w3))))"

section \<open>Download Orchestrator (the \<open>/api/download\<close> handler)\<close>

record request =
  url :: "string option"
  videoItag :: "string option"
  audioItag :: "string option"

text \<open>
  One run of the Extractor as \<open>attemptDownload\<close> sees it: the chunks it printed, the
  files it left on disk, and the callback that settles the attempt: \<open>close\<close> with an
  exit code, \<open>error\<close> (the process could not be started), or the kill timer firing first.
\<close>

datatype stream = Stdout | Stderr

datatype proc_end = Close "int option" | SpawnError string | TimedOut

record attempt =
  chunks :: "(stream \<times> string) list"
  written :: "(string \<times> string) list"
  ending :: proc_end

definition maxRetries :: nat where
  "maxRetries = 3"

text \<open>The delay of the kill timer, in milliseconds (15 minutes).\<close>

definition killTimeoutMs :: int where
  "killTimeoutMs = 1000 * 60 * 15"

text \<open>
  The first match of \<open>/(\d+(?:\.\d+)?)%/\<close> in a chunk: at a given start, the longest run
  of digits, then either \<open>%\<close> or a dot, a longest run of digits and \<open>%\<close>. The result is
  the captured group.
\<close>

definition match_percent_here :: "string \<Rightarrow> string option" where
  "match_percent_here s =
     (let d1 = takeWhile is_digit s; r = dropWhile is_digit s in
      if d1 = [] then None
      else if startsWith r ''%'' then Some d1
      else if startsWith r ''.'' then
        (let d2 = takeWhile is_digit (drop 1 r); r2 = dropWhile is_digit (drop 1 r) in
         if d2 \<noteq> [] \<and> startsWith r2 ''%'' then Some (d1 @ ''.'' @ d2) else None)
      else None)"

fun progress_match :: "string \<Rightarrow> string option" where
  "progress_match [] = None"
| "progress_match (c # cs) =
     (case match_percent_here (c # cs) of
        Some m \<Rightarrow> Some m
      | None \<Rightarrow> progress_match cs)"

text \<open>The \<open>data\<close> handlers of \<open>proc.stdout\<close> and \<open>proc.stderr\<close>.\<close>

definition chunk_events :: "stream \<times> string \<Rightarrow> progress_event list" where
  "chunk_events ch =
     (case ch of
        (Stdout, text) \<Rightarrow>
          (case progress_match text of None \<Rightarrow> [] | Some m \<Rightarrow> [Percent m])
          @ (if str_includes text ''Destination:'' \<or> str_includes text ''[download] Destination:''
             then [Status ''Downloading...''] else [])
          @ (if str_includes text ''100%'' then [StatusPercent ''Finalizing...'' 100] else [])
      | (Stderr, text) \<Rightarrow>
          (case progress_match text of None \<Rightarrow> [] | Some m \<Rightarrow> [Percent m]))"

text \<open>
  \<open>attemptDownload()\<close>: \<open>Inr ()\<close> when the promise resolves, \<open>Inl message\<close> when it
  rejects with an error of that message.
\<close>

definition attemptDownload ::
  "string list \<Rightarrow> string \<Rightarrow> attempt \<Rightarrow> world \<Rightarrow> (string + unit) \<times> world" where
  "attemptDownload filteredArgs finalFilePath a w =
     (let w1 = log_effects
                 ([Spawn ''yt-dlp'' filteredArgs, SetTimeout killTimeoutMs]
                  @ map Emit (concat (map chunk_events (chunks a))))
                 (w\<lparr>files := write_files (written a) (files w)\<rparr>)
      in case ending a of
           TimedOut \<Rightarrow>
             (Inl ''Download timed out'',
              log_effects [Kill, Emit (Failure ''Download timed out'')] w1)
         | Close code \<Rightarrow>
             if code \<noteq> Some 0 then
               (Inl (''Download failed with code '' @ show_code code),
                log_effects
                  [ClearTimeout,
                   Emit (FailureDetails ''Download failed'' (''Exit code: '' @ show_code code))] w1)
             else if \<not> existsSync (files w1) finalFilePath then
               (Inl ''File not created'',
                log_effects [ClearTimeout, Emit (Failure ''File not created'')] w1)
             else (Inr (), log_effects [ClearTimeout] w1)
         | SpawnError msg \<Rightarrow>
             (Inl msg,
              log_effects [ClearTimeout, Emit (Failure ''Failed to start download'')] w1))"

datatype body =
    ErrorBody string
  | ErrorDetailsBody string string
  | SuccessBody string

datatype response = Response int body

text \<open>The progress event of the \<open>catch\<close> block of the retry loop.\<close>

definition retry_announcement :: "nat \<Rightarrow> progress_event" where
  "retry_announcement retryCount =
     StatusPercent
       (''Retrying download... ('' @ show_nat retryCount @ ''/'' @ show_nat maxRetries @ '')'') 0"

text \<open>
  The \<open>while\<close> loop. \<open>k\<close> counts the attempts made so far and selects the behaviour of
  the next run of the Extractor. The result is \<open>Some r\<close> when the handler returns the
  response \<open>r\<close> from inside the loop and \<open>None\<close> when the loop ends and the handler goes on.
\<close>

function retry_loop ::
  "(nat \<Rightarrow> attempt) \<Rightarrow> string list \<Rightarrow> string \<Rightarrow> nat \<Rightarrow> bool \<Rightarrow> nat \<Rightarrow> world
   \<Rightarrow> response option \<times> world" where
  "retry_loop env filteredArgs finalFilePath retryCount downloadSuccess k w =
     (if retryCount < maxRetries \<and> \<not> downloadSuccess then
        (case attemptDownload filteredArgs finalFilePath (env k) w of
           (Inr u, w1) \<Rightarrow>
             retry_loop env filteredArgs finalFilePath retryCount True (Suc k) w1
         | (Inl message, w1) \<Rightarrow>
             (let w2 = log_effects [Emit (retry_announcement (retryCount + 1))] w1 in
              if retryCount + 1 < maxRetries then
                retry_loop env filteredArgs finalFilePath (retryCount + 1) downloadSuccess (Suc k)
                  (log_effects [Sleep 3000] w2)
              else
                (Some (Response 500 (ErrorDetailsBody ''Download failed after retries'' message)),
                 w2)))
      else (None, w))"
  by pat_completeness auto
termination
  by (relation "measure (\<lambda>(env, args, final, retryCount, downloadSuccess, k, w).
        (maxRetries - retryCount) + (if downloadSuccess then 0 else 1))")
     (auto simp: maxRetries_def)

declare retry_loop.simps [simp del]

text \<open>
  The Extractor's answer to the second \<open>--dump-json\<close> call, as \<open>fetchVideoInfo\<close> sees it:
  \<open>close\<close> with an exit code, the text of standard error and what \<open>JSON.parse\<close> and the
  reads of \<open>info.title\<close>, \<open>info.uploader\<close> and \<open>info.thumbnail\<close> make of standard output
  (an exception, or the three fields), or \<open>error\<close> (the process could not be started).
\<close>

datatype parsed_info = ParseThrows string | InfoObject "string option" "string option" "string option"

datatype fetch_end = FetchClose "int option" string parsed_info | FetchSpawnError string

text \<open>
  \<open>fetchVideoInfo(url)\<close> registers a \<open>close\<close> listener only. An \<open>error\<close> event of a
  child process that has no \<open>error\<close> listener is thrown by the emitter outside every
  promise: such an uncaught exception ends the server process.
\<close>

datatype 'a settled = Resolved 'a | Rejected string | Uncaught string

record video_info =
  vi_title :: string
  vi_uploader :: string
  vi_thumbnail :: string

definition fetchVideoInfo :: "string \<Rightarrow> fetch_end \<Rightarrow> world \<Rightarrow> video_info settled \<times> world" where
  "fetchVideoInfo u fe w =
     (let w1 = log_effects
                 [Spawn ''yt-dlp''
                    [''--dump-json'', ''--no-warnings'', ''--ignore-errors'',
                     ''--no-check-certificates'', u]] w
      in case fe of
           FetchSpawnError msg \<Rightarrow> (Uncaught msg, w1)
         | FetchClose code errorOutput parsed \<Rightarrow>
             if code \<noteq> Some 0 then
               (Rejected (if errorOutput \<noteq> [] then errorOutput else ''exit code '' @ show_code code),
                w1)
             else
               (case parsed of
                  ParseThrows msg \<Rightarrow> (Rejected msg, w1)
                | InfoObject t up th \<Rightarrow>
                    (Resolved \<lparr> vi_title = or_else t ''Untitled Video'',
                                vi_uploader = or_else up ''Unknown'',
                                vi_thumbnail = or_else th [] \<rparr>, w1)))"

text \<open>Everything outside the server that one download request meets.\<close>

record environment =
  request_uuid :: string
  attempts :: "nat \<Rightarrow> attempt"
  info_refetch :: fetch_end
  embed :: embed_env

text \<open>
  \<open>downloadsDir\<close> is \<open>path.join(__dirname, 'downloads')\<close> and \<open>ffmpegDir\<close> is the
  directory of \<open>ffmpegPath\<close> as the platform's \<open>path.dirname\<close> gives it; both depend on
  where the server runs and are parameters.
\<close>

record config =
  downloadsDir :: string
  ffmpegDir :: string

definition userAgent :: string where
  "userAgent = ''Mozilla/5.0 (Windows NT 10.0; Win64; x64) AppleWebKit/537.36 (KHTML, like Gecko) Chrome/125.0.0.0 Safari/537.36''"

text \<open>\<open>String(arg).trim() !== ''\<close>\<close>

definition not_blank :: "string \<Rightarrow> bool" where
  "not_blank arg = (dropWhile is_space arg \<noteq> [])"

text \<open>\<open>filteredArgs\<close>, the argument list of the Extractor.\<close>

definition download_args :: "config \<Rightarrow> string \<Rightarrow> request \<Rightarrow> string list" where
  "download_args cfg baseOutput req =
     filter not_blank
       ([''--no-warnings'', ''--ignore-errors'', ''--no-check-certificates'', ''--console-title'',
         ''--newline'', ''--progress'',
         ''--ffmpeg-location'', ffmpegDir cfg,
         ''--user-agent'', userAgent,
         ''--no-playlist'',
         ''-o'', baseOutput @ ''.%(ext)s'',
         the (url req)]
        @ (if truthy (videoItag req) \<and> truthy (audioItag req) then
             [''-f'', the (videoItag req) @ ''+'' @ the (audioItag req)]
           else if truthy (videoItag req) then [''-f'', the (videoItag req)]
           else [''-f'', ''bestvideo+bestaudio''])
        @ [''--merge-output-format'', ''mp4'',
           ''--postprocessor-args'', ''-c:v copy -c:a aac -b:a 192k''])"

text \<open>
  The second \<open>try\<close> of the handler: re-fetch the info, then embed it. A rejection of
  either promise is caught and logged; the result is the message of an uncaught exception,
  if there is one.
\<close>

definition embed_step ::
  "config \<Rightarrow> string \<Rightarrow> string \<Rightarrow> environment \<Rightarrow> world \<Rightarrow> string option \<times> world" where
  "embed_step cfg u finalFilePath env w =
     (case fetchVideoInfo u (info_refetch env) w of
        (Uncaught msg, w1) \<Rightarrow> (Some msg, w1)
      | (Rejected msg, w1) \<Rightarrow> (None, w1)
      | (Resolved videoInfo, w1) \<Rightarrow>
          (None,
           snd (embedMetadata (downloadsDir cfg) finalFilePath
                  (Some \<lparr> md_title = Some (vi_title videoInfo),
                           md_artist = Some (vi_uploader videoInfo),
                           md_thumbnail = Some (vi_thumbnail videoInfo) \<rparr>)
                  (embed env) w1)))"

text \<open>
  \<open>// Clean up temporary files\<close>. The directory was created when the server started,
  so the listing is taken to succeed; a removal that throws is caught and logged.
\<close>

definition cleanup_temp :: "string \<Rightarrow> string \<Rightarrow> filesystem \<Rightarrow> filesystem" where
  "cleanup_temp dir ident fs =
     foldl (\<lambda>acc file.
              if startsWith file ident \<and> \<not> endsWith file ''.mp4''
              then AList.delete (path_join dir file) acc else acc)
       fs (readdirSync fs dir)"

text \<open>
  What the client of one request gets: a response, or none because the server process
  ended on an uncaught exception.
\<close>

datatype outcome = Responded response | ServerDied string

definition baseOutput :: "config \<Rightarrow> string \<Rightarrow> string" where
  "baseOutput cfg ident = path_join (downloadsDir cfg) ident"

definition finalFilePath :: "config \<Rightarrow> string \<Rightarrow> string" where
  "finalFilePath cfg ident = baseOutput cfg ident @ ''.mp4''"

definition download :: "config \<Rightarrow> request \<Rightarrow> environment \<Rightarrow> world \<Rightarrow> outcome \<times> world" where
  "download cfg req env w =
     (if \<not> truthy (url req) then (Responded (Response 400 (ErrorBody ''Missing URL'')), w)
      else
        (let ident = request_uuid env;
             filteredArgs = download_args cfg (baseOutput cfg ident) req
         in case retry_loop (attempts env) filteredArgs (finalFilePath cfg ident) 0 False 0 w of
              (Some r, w1) \<Rightarrow> (Responded r, w1)
            | (None, w1) \<Rightarrow>
                (case embed_step cfg (the (url req)) (finalFilePath cfg ident) env w1 of
                   (Some msg, w2) \<Rightarrow> (ServerDied msg, w2)
                 | (None, w2) \<Rightarrow>
                     (Responded (Response 200 (SuccessBody (ident @ ''.mp4''))),
                      log_effects [Emit (Complete (ident @ ''.mp4''))]
                        (w2\<lparr>files := cleanup_temp (downloadsDir cfg) ident (files w2)\<rparr>)))))"

section \<open>Vocabulary of the properties\<close>

text \<open>
  An attempt fails when the Extractor exits with a code other than 0, cannot be started,
  is killed by the timer, or exits with 0 while the expected file is missing from the
  file system it leaves behind.
\<close>

definition attempt_fails :: "string \<Rightarrow> attempt \<Rightarrow> filesystem \<Rightarrow> bool" where
  "attempt_fails final a fs =
     (case ending a of
        Close code \<Rightarrow> code \<noteq> Some 0 \<or> \<not> existsSync (write_files (written a) fs) final
      | SpawnError msg \<Rightarrow> True
      | TimedOut \<Rightarrow> True)"

text \<open>
  The file system that attempt \<open>k + i\<close> starts from, when attempt \<open>k\<close> started from
  \<open>fs\<close>: only the runs of the Extractor write files during the retry loop.
\<close>

fun files_before :: "(nat \<Rightarrow> attempt) \<Rightarrow> nat \<Rightarrow> filesystem \<Rightarrow> nat \<Rightarrow> filesystem" where
  "files_before env k fs 0 = fs"
| "files_before env k fs (Suc i) = write_files (written (env (k + i))) (files_before env k fs i)"

definition is_retry_announcement :: "progress_event \<Rightarrow> bool" where
  "is_retry_announcement ev =
     (case ev of StatusPercent s p \<Rightarrow> startsWith s ''Retrying download...'' | _ \<Rightarrow> False)"

text \<open>The retry announcements among the effects, in order.\<close>

definition retry_events :: "effect list \<Rightarrow> progress_event list" where
  "retry_events t =
     concat (map (\<lambda>ef. case ef of
                           Emit ev \<Rightarrow> (if is_retry_announcement ev then [ev] else [])
                         | _ \<Rightarrow> []) t)"

text \<open>
  The effects that make up the retry policy: starting a process, arming its kill timer,
  pausing, and announcing a retry. The other progress events and the clearing of the
  timer are left aside.
\<close>

definition is_control :: "effect \<Rightarrow> bool" where
  "is_control ef =
     (case ef of
        Spawn c args \<Rightarrow> True
      | SetTimeout ms \<Rightarrow> True
      | Sleep ms \<Rightarrow> True
      | Emit ev \<Rightarrow> is_retry_announcement ev
      | _ \<Rightarrow> False)"

text \<open>What the \<open>i\<close>-th failed attempt contributes to them.\<close>

definition failed_round :: "string list \<Rightarrow> nat \<Rightarrow> effect list" where
  "failed_round args i =
     [Spawn ''yt-dlp'' args, SetTimeout (15 * 60 * 1000), Emit (retry_announcement i)]
     @ (if i < 3 then [Sleep 3000] else [])"

text \<open>
  What the loop does when it starts an attempt with \<open>retryCount = c\<close> and the next
  \<open>n\<close> attempts fail: it adds \<open>n\<close> failed rounds, numbered from \<open>c + 1\<close>, and one more
  attempt if the count allows; it ends without a response if the count is not used up,
  and with the failure response if it is.
\<close>

definition loop_spec ::
  "(nat \<Rightarrow> attempt) \<Rightarrow> string list \<Rightarrow> string \<Rightarrow> nat \<Rightarrow> nat \<Rightarrow> nat \<Rightarrow> world \<Rightarrow> bool" where
  "loop_spec env args final c n k w =
     (filter is_control (trace (snd (retry_loop env args final c False k w))) =
        filter is_control (trace w)
        @ concat (map (failed_round args) [c + 1 ..< c + n + 1])
        @ (if c + n < maxRetries then [Spawn ''yt-dlp'' args, SetTimeout (15 * 60 * 1000)] else [])
      \<and> (c + n < maxRetries \<longrightarrow> fst (retry_loop env args final c False k w) = None)
      \<and> (0 < n \<and> c + n = maxRetries \<longrightarrow>
           (\<exists>msg. fst (retry_loop env args final c False k w) =
             Some (Response 500 (ErrorDetailsBody ''Download failed after retries'' msg)))))"


section \<open>Example inputs\<close>





definition ex_config :: config where
  "ex_config = \<lparr> downloadsDir = ''/dl'', ffmpegDir = ''C:/ffmpeg/bin'' \<rparr>"

definition ex_request :: request where
  "ex_request = \<lparr> url = Some ''https://v/1'', videoItag = Some ''248'', audioItag = None \<rparr>"

definition ex_world :: world where
  "ex_world = \<lparr> trace = [], files = [] \<rparr>"

definition run_ok :: attempt where
  "run_ok =
     \<lparr> chunks = [(Stdout, ''[download] Destination: /dl/id1.f248.webm''),
                 (Stdout, ''[download]  42.5% of 10MiB''),
                 (Stdout, ''[download] 100% of 10MiB'')],
       written = [(''/dl/id1.mp4'', ''VIDEO'')],
       ending = Close (Some 0) \<rparr>"

definition run_exit1 :: attempt where
  "run_exit1 = \<lparr> chunks = [(Stderr, ''ERROR: unable to download'')], written = [],
                  ending = Close (Some 1) \<rparr>"

definition ex_embed :: embed_env where
  "ex_embed =
     \<lparr> thumb_uuid = ''u1'', thumb_download = Downloaded ''IMG'',
       ffmpeg_run = FfClose (Some 0) ''log'' (Some ''TAGGED'') \<rparr>"

definition ex_embed_failing :: embed_env where
  "ex_embed_failing =
     \<lparr> thumb_uuid = ''u1'', thumb_download = Downloaded ''IMG'',
       ffmpeg_run = FfClose (Some 1) ''Invalid data found'' None \<rparr>"

definition ex_info :: fetch_end where
  "ex_info = FetchClose (Some 0) [] (InfoObject (Some ''T'') None (Some ''https://i/t.jpg''))"

text \<open>Every attempt fails with exit code 1.\<close>

definition env_all_fail :: environment where
  "env_all_fail =
     \<lparr> request_uuid = ''id1'', attempts = (\<lambda>k. run_exit1), info_refetch = ex_info,
       embed = ex_embed \<rparr>"

text \<open>The first attempt fails, the second succeeds.\<close>

definition env_transient :: environment where
  "env_transient =
     \<lparr> request_uuid = ''id1'', attempts = (\<lambda>k. if k = 0 then run_exit1 else run_ok),
       info_refetch = ex_info, embed = ex_embed \<rparr>"

text \<open>The first attempt succeeds.\<close>

definition env_immediate :: environment where
  "env_immediate =
     \<lparr> request_uuid = ''id1'', attempts = (\<lambda>k. run_ok), info_refetch = ex_info,
       embed = ex_embed \<rparr>"

text \<open>
  The first attempt succeeds, and the Extractor cannot be started for the second
  \<open>--dump-json\<close> call.
\<close>

definition env_refetch_unstartable :: environment where
  "env_refetch_unstartable =
     \<lparr> request_uuid = ''id1'', attempts = (\<lambda>k. run_ok),
       info_refetch = FetchSpawnError ''spawn yt-dlp EAGAIN'', embed = ex_embed \<rparr>"

definition md_missing_thumb :: metadata where
  "md_missing_thumb =
     \<lparr> md_title = Some ''T'', md_artist = None, md_thumbnail = Some ''covers/none.jpg'' \<rparr>"

definition md_local_thumb :: metadata where
  "md_local_thumb =
     \<lparr> md_title = Some ''T'', md_artist = None,
       md_thumbnail = Some ''/home/u/thumb_cover.jpg'' \<rparr>"

definition world_with_cover :: world where
  "world_with_cover =
     \<lparr> trace = [],
       files = [(''/dl/v.mp4'', ''VIDEO''), (''/home/u/thumb_cover.jpg'', ''JPEG'')] \<rparr>"

section \<open>Format Translator: partition and order\<close>










section \<open>Metadata Embedder: thumbnails and failures\<close>

lemma basename_no_slash: "CHR ''/'' \<notin> set (basename p)"
  unfolding basename_def set_rev
  by (metis (mono_tags, lifting) set_takeWhileD)

lemma basename_join:
  assumes "CHR ''/'' \<notin> set n" and "n \<noteq> []"
  shows "basename (path_join d n) = n"
proof -
  have r: "rev (path_join d n) = rev n @ CHR ''/'' # rev d"
    by (simp add: path_join_def)
  have "rev n \<noteq> []" using assms by simp
  then obtain c cs where cs: "rev n = c # cs" by (cases "rev n") auto
  have "c \<in> set n" using cs by (metis list.set_intros(1) set_rev)
  then have "c \<noteq> CHR ''/''" using assms by auto
  then have d: "dropWhile (\<lambda>c. c = CHR ''/'') (rev (path_join d n)) = rev n @ CHR ''/'' # rev d"
    by (simp add: r cs)
  have "\<And>x. x \<in> set (rev n) \<Longrightarrow> x \<noteq> CHR ''/''" using assms by auto
  then have "takeWhile (\<lambda>c. c \<noteq> CHR ''/'') (rev n @ CHR ''/'' # rev d) =
      rev n @ takeWhile (\<lambda>c. c \<noteq> CHR ''/'') (CHR ''/'' # rev d)"
    by (rule takeWhile_append2)
  then have "takeWhile (\<lambda>c. c \<noteq> CHR ''/'') (rev n @ CHR ''/'' # rev d) = rev n"
    by simp
  then show ?thesis
    by (simp add: basename_def d)
qed

text \<open>The temporary output is never the file being tagged.\<close>

lemma temp_path_neq: "temp_path d fp \<noteq> fp"
proof
  assume eq: "temp_path d fp = fp"
  have "basename (temp_path d fp) = ''meta_temp_'' @ basename fp"
    unfolding temp_path_def
    by (rule basename_join) (use basename_no_slash [of fp] in auto)
  then have "length (basename fp) = length (''meta_temp_'' @ basename fp)"
    using eq by simp
  then show False by simp
qed

lemma resolve_thumb_local_missing:
  assumes "md_thumbnail m = Some t" and "\<not> is_http_url t" and "\<not> existsSync (files w) t"
  shows "resolve_thumb d (Some m) e w = (None, w)"
  using assms by (simp add: resolve_thumb_def)

lemma resolve_thumb_files:
  assumes "p \<noteq> thumb_file d (thumb_uuid e)"
  shows "map_of (files (snd (resolve_thumb d md e w))) p = map_of (files w) p"
  using assms
  by (auto simp: resolve_thumb_def log_effects_def Let_def update_conv'
      split: option.splits download_end.splits)

text \<open>
  Claim C7. When the thumbnail value is neither an \<open>http(s)\<close> URL nor an existing
  local file, the only thing the embedder does is to start the Transcoder with one input
  and no \<open>attached_pic\<close> disposition, and the thumbnail raises no error: when the
  Transcoder exits with 0 the call resolves.
\<close>

theorem embed_tag_only:
  assumes "md_thumbnail m = Some t" and "\<not> is_http_url t" and "\<not> existsSync (files w) t"
  shows "trace (snd (embedMetadata d fp (Some m) e w)) =
           trace w @
           [Spawn ffmpegPath
              [''-i'', fp, ''-c'', ''copy'',
               ''-metadata'', ''title='' @ or_else (md_title m) [],
               ''-metadata'', ''artist='' @ or_else (md_artist m) [],
               ''-metadata'', ''comment=Downloaded with ULTRA Downloader'',
               temp_path d fp]]
         \<and> (\<forall>se out. ffmpeg_run e = FfClose (Some 0) se out
               \<longrightarrow> fst (embedMetadata d fp (Some m) e w) = Inr ())"
proof -
  have r: "resolve_thumb d (Some m) e w = (None, w)"
    using assms by (rule resolve_thumb_local_missing)
  have a: "ffmpeg_args fp (temp_path d fp) m None =
      [''-i'', fp, ''-c'', ''copy'',
               ''-metadata'', ''title='' @ or_else (md_title m) [],
               ''-metadata'', ''artist='' @ or_else (md_artist m) [],
               ''-metadata'', ''comment=Downloaded with ULTRA Downloader'',
               temp_path d fp]"
    by (simp add: ffmpeg_args_def truthy_def)
  show ?thesis
    by (auto simp: embedMetadata_def r a log_effects_def Let_def
        split: ffmpeg_end.splits option.splits)
qed

theorem embed_tag_only_witness:
  "trace (snd (embedMetadata ''/dl'' ''/dl/v.mp4'' (Some md_missing_thumb) ex_embed
                 world_with_cover)) =
     [Spawn ffmpegPath
        [''-i'', ''/dl/v.mp4'', ''-c'', ''copy'', ''-metadata'', ''title=T'',
         ''-metadata'', ''artist='', ''-metadata'',
         ''comment=Downloaded with ULTRA Downloader'', ''/dl/meta_temp_v.mp4'']]
   \<and> fst (embedMetadata ''/dl'' ''/dl/v.mp4'' (Some md_missing_thumb) ex_embed
            world_with_cover) = Inr ()"
proof -
  have h1: "md_thumbnail md_missing_thumb = Some ''covers/none.jpg''"
    by (simp add: md_missing_thumb_def)
  have h2: "\<not> is_http_url ''covers/none.jpg''"
    by code_simp
  have h3: "\<not> existsSync (files world_with_cover) ''covers/none.jpg''"
    by code_simp
  have f: "ffmpeg_run ex_embed = FfClose (Some 0) ''log'' (Some ''TAGGED'')"
    by (simp add: ex_embed_def)
  have t: "temp_path ''/dl'' ''/dl/v.mp4'' = ''/dl/meta_temp_v.mp4''"
    by code_simp
  have m: "or_else (md_title md_missing_thumb) [] = ''T''
           \<and> or_else (md_artist md_missing_thumb) [] = []"
    by code_simp
  have w: "trace world_with_cover = []"
    by (simp add: world_with_cover_def)
  show ?thesis
    using embed_tag_only [OF h1 h2 h3, of "''/dl''" "''/dl/v.mp4''" ex_embed] f
    by (simp add: t m w)
qed

text \<open>
  Claim C8. When the Transcoder exits with a code other than 0, the call rejects with
  a message that carries the Transcoder's standard error, and the file at \<open>filePath\<close>
  keeps its content. The identifier drawn for a downloaded thumbnail is fresh: the path
  made from it is not \<open>filePath\<close>. The Transcoder writes its output path only.
\<close>

theorem embed_transcoder_failure:
  assumes "ffmpeg_run e = FfClose code se out" and "code \<noteq> Some 0"
    and "thumb_file d (thumb_uuid e) \<noteq> fp"
  shows "fst (embedMetadata d fp (Some m) e w) =
           Inl (''FFmpeg exited with code '' @ show_code code @ ''. Stderr: '' @ se)
         \<and> map_of (files (snd (embedMetadata d fp (Some m) e w))) fp = map_of (files w) fp"
proof -
  obtain tp w1 where r: "resolve_thumb d (Some m) e w = (tp, w1)"
    by (cases "resolve_thumb d (Some m) e w")
  have f1: "map_of (files w1) fp = map_of (files w) fp"
    using resolve_thumb_files [of fp d e "Some m" w] assms(3) r by simp
  have t: "temp_path d fp \<noteq> fp" by (rule temp_path_neq)
  show ?thesis
    using assms(1,2) f1 t
    by (auto simp: embedMetadata_def r log_effects_def Let_def update_conv'
        split: option.splits)
qed

theorem embed_transcoder_failure_witness:
  "fst (embedMetadata ''/dl'' ''/dl/v.mp4'' (Some md_local_thumb) ex_embed_failing
          world_with_cover) =
     Inl ''FFmpeg exited with code 1. Stderr: Invalid data found''
   \<and> map_of (files (snd (embedMetadata ''/dl'' ''/dl/v.mp4'' (Some md_local_thumb)
                           ex_embed_failing world_with_cover))) ''/dl/v.mp4'' =
     Some ''VIDEO''"
proof -
  have h1: "ffmpeg_run ex_embed_failing = FfClose (Some 1) ''Invalid data found'' None"
    by (simp add: ex_embed_failing_def)
  have h2: "Some (1::int) \<noteq> Some 0"
    by simp
  have h3: "thumb_file ''/dl'' (thumb_uuid ex_embed_failing) \<noteq> ''/dl/v.mp4''"
    by code_simp
  have c: "show_code (Some 1) = ''1''"
    by code_simp
  have w: "map_of (files world_with_cover) ''/dl/v.mp4'' = Some ''VIDEO''"
    by code_simp
  show ?thesis
    using embed_transcoder_failure [OF h1 h2 h3, of md_local_thumb world_with_cover]
    by (simp add: c w)
qed

text \<open>
  Claim C9 fails on the code. A thumbnail given as the path of an existing local file
  is removed after a successful run when its path contains \<open>thumb_\<close>, although the
  embedder did not download it: no download is made, the call resolves, and the file is
  gone.
\<close>

theorem embed_removes_local_thumbnail:
  "existsSync (files world_with_cover) ''/home/u/thumb_cover.jpg''
   \<and> embedMetadata ''/dl'' ''/dl/v.mp4'' (Some md_local_thumb) ex_embed world_with_cover =
       (Inr (),
        \<lparr> trace =
            [Spawn ffmpegPath
               [''-i'', ''/dl/v.mp4'', ''-i'', ''/home/u/thumb_cover.jpg'',
                ''-map'', ''0'', ''-map'', ''1'', ''-c'', ''copy'',
                ''-metadata'', ''title=T'', ''-metadata'', ''artist='',
                ''-metadata'', ''comment=Downloaded with ULTRA Downloader'',
                ''-disposition:v:1'', ''attached_pic'', ''/dl/meta_temp_v.mp4'']],
          files = [(''/dl/v.mp4'', ''TAGGED'')] \<rparr>)"
  by code_simp

section \<open>Download Orchestrator: retries and responses\<close>

lemma retry_is_retry: "is_retry_announcement (retry_announcement n)"
  by (simp add: is_retry_announcement_def retry_announcement_def startsWith_def)

lemma chunk_not_retry: "ev \<in> set (chunk_events ch) \<Longrightarrow> \<not> is_retry_announcement ev"
  by (cases ch; cases "fst ch")
     (auto simp: chunk_events_def is_retry_announcement_def startsWith_def
           split: option.splits if_splits)

lemma chunks_control: "filter is_control (map Emit (concat (map chunk_events cs))) = []"
  by (auto simp: filter_empty_conv is_control_def dest: chunk_not_retry)

lemma attempt_result:
  "fst (attemptDownload args final a w) = Inr () \<longleftrightarrow> \<not> attempt_fails final a (files w)"
  by (auto simp: attemptDownload_def attempt_fails_def log_effects_def Let_def
      split: proc_end.splits)

lemma attempt_files:
  "files (snd (attemptDownload args final a w)) = write_files (written a) (files w)"
  by (auto simp: attemptDownload_def log_effects_def Let_def split: proc_end.splits)

lemma attempt_control:
  "filter is_control (trace (snd (attemptDownload args final a w))) =
     filter is_control (trace w) @ [Spawn ''yt-dlp'' args, SetTimeout (15 * 60 * 1000)]"
  by (auto simp: attemptDownload_def log_effects_def Let_def chunks_control is_control_def
      is_retry_announcement_def killTimeoutMs_def split: proc_end.splits)

lemma attempt_trace_mono:
  "set (trace w) \<subseteq> set (trace (snd (attemptDownload args final a w)))"
  by (auto simp: attemptDownload_def log_effects_def Let_def split: proc_end.splits)

lemma attempt_spawn:
  "Spawn ''yt-dlp'' args \<in> set (trace (snd (attemptDownload args final a w)))"
  by (auto simp: attemptDownload_def log_effects_def Let_def split: proc_end.splits)

lemma loop_done: "retry_loop env args final c True k w = (None, w)"
  by (simp add: retry_loop.simps)

lemma loop_exhausted: "\<not> c < maxRetries \<Longrightarrow> retry_loop env args final c s k w = (None, w)"
  by (simp add: retry_loop.simps)

lemma loop_success:
  assumes "c < maxRetries" and "\<not> attempt_fails final (env k) (files w)"
  shows "retry_loop env args final c False k w = (None, snd (attemptDownload args final (env k) w))"
proof -
  obtain r w1 where a: "attemptDownload args final (env k) w = (r, w1)"
    by (cases "attemptDownload args final (env k) w")
  have "r = Inr ()" using attempt_result [of args final "env k" w] assms(2) a by simp
  then show ?thesis
    using assms(1) a by (subst retry_loop.simps) (simp add: loop_done)
qed

lemma loop_failure:
  assumes "c < maxRetries" and "attempt_fails final (env k) (files w)"
  shows "\<exists>msg. retry_loop env args final c False k w =
     (if c + 1 < maxRetries then
        retry_loop env args final (c + 1) False (Suc k)
          (log_effects [Sleep 3000]
             (log_effects [Emit (retry_announcement (c + 1))]
                (snd (attemptDownload args final (env k) w))))
      else
        (Some (Response 500 (ErrorDetailsBody ''Download failed after retries'' msg)),
         log_effects [Emit (retry_announcement (c + 1))]
           (snd (attemptDownload args final (env k) w))))"
proof -
  obtain r w1 where a: "attemptDownload args final (env k) w = (r, w1)"
    by (cases "attemptDownload args final (env k) w")
  have "r \<noteq> Inr ()" using attempt_result [of args final "env k" w] assms(2) a by auto
  then obtain msg where "r = Inl msg" by (cases r) auto
  then show ?thesis
    using assms(1) a by (subst retry_loop.simps) (auto simp: Let_def)
qed

lemma files_before_shift:
  "files_before env k fs (Suc i) = files_before env (Suc k) (write_files (written (env k)) fs) i"
  by (induction i) simp_all

text \<open>
  The loop from any state it can be in before an attempt: \<open>n\<close> failures, then a success
  unless the attempts are used up.
\<close>

lemma loop_run:
  assumes "c + n \<le> maxRetries"
    and "\<forall>i<n. attempt_fails final (env (k + i)) (files_before env k (files w) i)"
    and "c + n < maxRetries \<longrightarrow> \<not> attempt_fails final (env (k + n)) (files_before env k (files w) n)"
  shows "loop_spec env args final c n k w"
  using assms
proof (induction n arbitrary: c k w)
  case 0
  show ?case
  proof (cases "c < maxRetries")
    case True
    then have "\<not> attempt_fails final (env k) (files w)" using "0.prems" by simp
    then show ?thesis using True by (simp add: loop_spec_def loop_success attempt_control)
  next
    case False
    then show ?thesis by (simp add: loop_spec_def loop_exhausted)
  qed
next
  case (Suc n)
  have c: "c < maxRetries" using Suc.prems(1) by simp
  have f: "attempt_fails final (env k) (files w)" using Suc.prems(2) by force
  let ?w1 = "snd (attemptDownload args final (env k) w)"
  let ?w2 = "log_effects [Emit (retry_announcement (c + 1))] ?w1"
  let ?w3 = "log_effects [Sleep 3000] ?w2"
  have up: "[c + 1 ..< c + Suc n + 1] = (c + 1) # [c + 1 + 1 ..< c + 1 + n + 1]"
    by (simp add: upt_rec)
  from loop_failure [of c final env k w args] c f obtain msg where
    st: "retry_loop env args final c False k w =
     (if c + 1 < maxRetries then retry_loop env args final (c + 1) False (Suc k) ?w3
      else (Some (Response 500 (ErrorDetailsBody ''Download failed after retries'' msg)), ?w2))"
    by blast
  show ?case
  proof (cases "c + 1 < maxRetries")
    case True
    have fw: "files ?w3 = write_files (written (env k)) (files w)"
      by (simp add: log_effects_def attempt_files)
    have p1: "c + 1 + n \<le> maxRetries" using Suc.prems(1) by simp
    have p2: "\<forall>i<n. attempt_fails final (env (Suc k + i)) (files_before env (Suc k) (files ?w3) i)"
    proof (intro allI impI)
      fix i assume "i < n"
      then have "attempt_fails final (env (k + Suc i)) (files_before env k (files w) (Suc i))"
        using Suc.prems(2) by (metis Suc_less_eq)
      then show "attempt_fails final (env (Suc k + i)) (files_before env (Suc k) (files ?w3) i)"
        by (simp only: files_before_shift fw add_Suc_right add_Suc)
    qed
    have p3: "c + 1 + n < maxRetries \<longrightarrow>
        \<not> attempt_fails final (env (Suc k + n)) (files_before env (Suc k) (files ?w3) n)"
      using Suc.prems(3) by (simp only: files_before_shift fw add_Suc_right add_Suc) simp
    have ih: "loop_spec env args final (c + 1) n (Suc k) ?w3"
      by (rule Suc.IH [OF p1 p2 p3])
    have t3: "filter is_control (trace ?w3) = filter is_control (trace w) @ failed_round args (c + 1)"
      using True
      by (simp add: log_effects_def attempt_control failed_round_def is_control_def
          retry_is_retry maxRetries_def)
    have st': "retry_loop env args final c False k w =
        retry_loop env args final (c + 1) False (Suc k) ?w3"
      using True by (simp only: st if_True)
    show ?thesis
      using ih True unfolding loop_spec_def st' up t3 by auto
  next
    case False
    then have n0: "n = 0" using Suc.prems(1) by simp
    have t2: "filter is_control (trace ?w2) = filter is_control (trace w) @ failed_round args (c + 1)"
      using False
      by (simp add: log_effects_def attempt_control failed_round_def is_control_def
          retry_is_retry maxRetries_def)
    show ?thesis
      using False n0 t2 by (simp add: loop_spec_def st)
  qed
qed


lemma loop_step:
  assumes "c < maxRetries" and "\<not> s" and "attemptDownload args final (env k) w = (res, w1)"
  shows "retry_loop env args final c s k w =
     (case res of
        Inr u \<Rightarrow> retry_loop env args final c True (Suc k) w1
      | Inl message \<Rightarrow>
          if c + 1 < maxRetries then
            retry_loop env args final (c + 1) s (Suc k)
              (log_effects [Sleep 3000] (log_effects [Emit (retry_announcement (c + 1))] w1))
          else
            (Some (Response 500 (ErrorDetailsBody ''Download failed after retries'' message)),
             log_effects [Emit (retry_announcement (c + 1))] w1))"
  using assms by (subst retry_loop.simps) (simp add: Let_def split: sum.splits)

lemma loop_response_500:
  "fst (retry_loop env args final c s k w) = Some r \<Longrightarrow>
     \<exists>msg. r = Response 500 (ErrorDetailsBody ''Download failed after retries'' msg)"
proof (induction env args final c s k w rule: retry_loop.induct)
  case (1 env args final c s k w)
  show ?case
  proof (cases "c < maxRetries \<and> \<not> s")
    case False
    then have "retry_loop env args final c s k w = (None, w)"
      by (cases s) (auto simp: loop_done loop_exhausted)
    then show ?thesis using "1.prems" by simp
  next
    case True
    obtain res w1 where a: "attemptDownload args final (env k) w = (res, w1)"
      by (cases "attemptDownload args final (env k) w")
    note st = loop_step [where env = env and k = k, OF conjunct1 [OF True] conjunct2 [OF True] a]
    show ?thesis
    proof (cases res)
      case (Inr u)
      have "fst (retry_loop env args final c True (Suc k) w1) = Some r"
        using "1.prems" by (simp add: st Inr)
      then show ?thesis
        by (rule "1.IH"(2) [OF True a [symmetric] Inr])
    next
      case (Inl message)
      show ?thesis
      proof (cases "c + 1 < maxRetries")
        case lt: True
        have "fst (retry_loop env args final (c + 1) s (Suc k)
                (log_effects [Sleep 3000] (log_effects [Emit (retry_announcement (c + 1))] w1)))
              = Some r"
          using "1.prems" lt by (simp add: st Inl)
        then show ?thesis
          by (rule "1.IH"(1) [OF True a [symmetric] Inl refl lt])
      next
        case False
        then show ?thesis
          using "1.prems" by (auto simp: st Inl)
      qed
    qed
  qed
qed

lemma loop_trace_mono:
  "set (trace w) \<subseteq> set (trace (snd (retry_loop env args final c s k w)))"
proof (induction env args final c s k w rule: retry_loop.induct)
  case (1 env args final c s k w)
  show ?case
  proof (cases "c < maxRetries \<and> \<not> s")
    case False
    then have "retry_loop env args final c s k w = (None, w)"
      by (cases s) (auto simp: loop_done loop_exhausted)
    then show ?thesis by simp
  next
    case True
    obtain res w1 where a: "attemptDownload args final (env k) w = (res, w1)"
      by (cases "attemptDownload args final (env k) w")
    have m: "set (trace w) \<subseteq> set (trace w1)"
      using attempt_trace_mono [of w args final "env k"] a by simp
    note st = loop_step [where env = env and k = k, OF conjunct1 [OF True] conjunct2 [OF True] a]
    show ?thesis
    proof (cases res)
      case (Inr u)
      have "set (trace w1) \<subseteq> set (trace (snd (retry_loop env args final c True (Suc k) w1)))"
        by (rule "1.IH"(2) [OF True a [symmetric] Inr])
      then show ?thesis
        using m by (auto simp: st Inr)
    next
      case (Inl message)
      show ?thesis
      proof (cases "c + 1 < maxRetries")
        case lt: True
        let ?w3 = "log_effects [Sleep 3000] (log_effects [Emit (retry_announcement (c + 1))] w1)"
        have "set (trace ?w3) \<subseteq> set (trace (snd (retry_loop env args final (c + 1) s (Suc k) ?w3)))"
          by (rule "1.IH"(1) [OF True a [symmetric] Inl refl lt])
        moreover have "set (trace w1) \<subseteq> set (trace ?w3)"
          by (auto simp: log_effects_def)
        ultimately show ?thesis
          using m lt by (auto simp: st Inl)
      next
        case False
        then show ?thesis
          using m by (auto simp: st Inl log_effects_def)
      qed
    qed
  qed
qed

lemma loop_spawns:
  assumes "c < maxRetries"
  shows "Spawn ''yt-dlp'' args \<in> set (trace (snd (retry_loop env args final c False k w)))"
proof -
  obtain res w1 where a: "attemptDownload args final (env k) w = (res, w1)"
    by (cases "attemptDownload args final (env k) w")
  have sp: "Spawn ''yt-dlp'' args \<in> set (trace w1)"
    using attempt_spawn [of args final "env k" w] a by simp
  have st: "retry_loop env args final c False k w =
     (case res of
        Inr u \<Rightarrow> retry_loop env args final c True (Suc k) w1
      | Inl message \<Rightarrow>
          if c + 1 < maxRetries then
            retry_loop env args final (c + 1) False (Suc k)
              (log_effects [Sleep 3000] (log_effects [Emit (retry_announcement (c + 1))] w1))
          else
            (Some (Response 500 (ErrorDetailsBody ''Download failed after retries'' message)),
             log_effects [Emit (retry_announcement (c + 1))] w1))"
    using assms a by (intro loop_step [where env = env and k = k]) auto
  show ?thesis
  proof (cases res)
    case (Inr u)
    then show ?thesis
      using sp by (simp add: st loop_done)
  next
    case (Inl message)
    show ?thesis
    proof (cases "c + 1 < maxRetries")
      case True
      let ?w3 = "log_effects [Sleep 3000] (log_effects [Emit (retry_announcement (c + 1))] w1)"
      have "Spawn ''yt-dlp'' args \<in> set (trace ?w3)"
        using sp by (simp add: log_effects_def)
      then have "Spawn ''yt-dlp'' args
          \<in> set (trace (snd (retry_loop env args final (c + 1) False (Suc k) ?w3)))"
        using loop_trace_mono by blast
      then show ?thesis
        using True by (simp add: st Inl)
    next
      case False
      then show ?thesis
        using sp by (simp add: st Inl log_effects_def)
    qed
  qed
qed

lemma retry_events_append: "retry_events (a @ b) = retry_events a @ retry_events b"
  by (simp add: retry_events_def)

lemma retry_events_control: "retry_events (filter is_control t) = retry_events t"
  by (induction t) (auto simp: retry_events_def is_control_def split: effect.splits)

lemma retry_events_rounds:
  "retry_events (concat (map (failed_round args) ns)) = map retry_announcement ns"
proof (induction ns)
  case Nil
  show ?case by (simp add: retry_events_def)
next
  case (Cons i ns)
  have "retry_events (failed_round args i) = [retry_announcement i]"
    by (simp add: failed_round_def retry_events_def retry_is_retry)
  then show ?case using Cons.IH by (simp add: retry_events_append)
qed

lemma loop_retry_events:
  assumes "loop_spec env args final c n k w"
  shows "retry_events (trace (snd (retry_loop env args final c False k w))) =
           retry_events (trace w) @ map retry_announcement [c + 1 ..< c + n + 1]"
proof -
  have "retry_events (filter is_control (trace (snd (retry_loop env args final c False k w)))) =
        retry_events (filter is_control (trace w)
           @ concat (map (failed_round args) [c + 1 ..< c + n + 1])
           @ (if c + n < maxRetries then [Spawn ''yt-dlp'' args, SetTimeout (15 * 60 * 1000)] else []))"
    using assms by (simp only: loop_spec_def)
  then show ?thesis
    by (simp add: retry_events_control retry_events_append retry_events_rounds)
       (simp add: retry_events_def)
qed

lemma fetch_trace:
  "trace (snd (fetchVideoInfo u fe w)) =
     trace w @ [Spawn ''yt-dlp'' [''--dump-json'', ''--no-warnings'', ''--ignore-errors'',
                                  ''--no-check-certificates'', u]]"
  by (auto simp: fetchVideoInfo_def log_effects_def Let_def
      split: fetch_end.splits parsed_info.splits)

lemma resolve_thumb_trace:
  "\<exists>t. trace (snd (resolve_thumb d md e w)) = trace w @ t \<and> retry_events t = []"
  by (auto simp: resolve_thumb_def log_effects_def Let_def retry_events_def
      split: option.splits download_end.splits)

lemma embed_trace:
  "\<exists>t. trace (snd (embedMetadata d fp md e w)) = trace w @ t \<and> retry_events t = []"
proof -
  obtain tp w1 where r: "resolve_thumb d md e w = (tp, w1)"
    by (cases "resolve_thumb d md e w")
  obtain t1 where t1: "trace w1 = trace w @ t1" "retry_events t1 = []"
    using resolve_thumb_trace [of d md e w] r by auto
  show ?thesis
  proof (cases md)
    case None
    then show ?thesis using t1 r by (simp add: embedMetadata_def)
  next
    case (Some m)
    let ?sp = "Spawn ffmpegPath (ffmpeg_args fp (temp_path d fp) m tp)"
    have "trace (snd (embedMetadata d fp md e w)) = trace w @ (t1 @ [?sp])"
      using Some t1(1) r
      by (auto simp: embedMetadata_def log_effects_def Let_def
          split: ffmpeg_end.splits option.splits)
    moreover have "retry_events (t1 @ [?sp]) = []"
      using t1(2) by (simp add: retry_events_append) (simp add: retry_events_def)
    ultimately show ?thesis by blast
  qed
qed

lemma embed_step_trace:
  "\<exists>t. trace (snd (embed_step cfg u final env w)) = trace w @ t \<and> retry_events t = []"
proof -
  let ?sp = "Spawn ''yt-dlp'' [''--dump-json'', ''--no-warnings'', ''--ignore-errors'',
                                  ''--no-check-certificates'', u]"
  obtain r w1 where f: "fetchVideoInfo u (info_refetch env) w = (r, w1)"
    by (cases "fetchVideoInfo u (info_refetch env) w")
  have t1: "trace w1 = trace w @ [?sp]"
    using fetch_trace [of u "info_refetch env" w] f by simp
  have e1: "retry_events [?sp] = []" by (simp add: retry_events_def)
  show ?thesis
  proof (cases r)
    case (Resolved videoInfo)
    let ?md = "Some \<lparr> md_title = Some (vi_title videoInfo),
                        md_artist = Some (vi_uploader videoInfo),
                        md_thumbnail = Some (vi_thumbnail videoInfo) \<rparr>"
    obtain t where t: "trace (snd (embedMetadata (downloadsDir cfg) final ?md
                         (embed env) w1)) = trace w1 @ t" "retry_events t = []"
      using embed_trace by blast
    have "trace (snd (embed_step cfg u final env w)) = trace w @ ([?sp] @ t)"
      using Resolved f t(1) t1 by (simp add: embed_step_def)
    moreover have "retry_events ([?sp] @ t) = []"
      using t(2) e1 by (simp only: retry_events_append) simp
    ultimately show ?thesis by blast
  next
    case (Rejected msg)
    then show ?thesis using f t1 e1 by (simp add: embed_step_def)
  next
    case (Uncaught msg)
    then show ?thesis using f t1 e1 by (simp add: embed_step_def)
  qed
qed

lemma embed_step_result:
  "fst (embed_step cfg u final env w) =
     (case info_refetch env of FetchSpawnError msg \<Rightarrow> Some msg | FetchClose c eo p \<Rightarrow> None)"
  by (auto simp: embed_step_def fetchVideoInfo_def log_effects_def Let_def
      split: fetch_end.splits parsed_info.splits)

text \<open>The handler once the URL is there, in terms of its three stages.\<close>

lemma download_stages:
  assumes "truthy (url req)"
  shows "download cfg req env w =
     (case retry_loop (attempts env)
             (download_args cfg (baseOutput cfg (request_uuid env)) req)
             (finalFilePath cfg (request_uuid env)) 0 False 0 w of
        (Some r, w1) \<Rightarrow> (Responded r, w1)
      | (None, w1) \<Rightarrow>
          (case embed_step cfg (the (url req)) (finalFilePath cfg (request_uuid env)) env w1 of
             (Some msg, w2) \<Rightarrow> (ServerDied msg, w2)
           | (None, w2) \<Rightarrow>
               (Responded (Response 200 (SuccessBody (request_uuid env @ ''.mp4''))),
                log_effects [Emit (Complete (request_uuid env @ ''.mp4''))]
                  (w2\<lparr>files := cleanup_temp (downloadsDir cfg) (request_uuid env) (files w2)\<rparr>))))"
  using assms by (simp add: download_def Let_def)

lemma download_after_loop:
  assumes "truthy (url req)"
    and "fst (retry_loop (attempts env)
             (download_args cfg (baseOutput cfg (request_uuid env)) req)
             (finalFilePath cfg (request_uuid env)) 0 False 0 w) = None"
  shows "fst (download cfg req env w) =
           (case info_refetch env of
              FetchSpawnError msg \<Rightarrow> ServerDied msg
            | FetchClose c eo p \<Rightarrow>
                Responded (Response 200 (SuccessBody (request_uuid env @ ''.mp4''))))"
proof -
  obtain w1 where l: "retry_loop (attempts env)
             (download_args cfg (baseOutput cfg (request_uuid env)) req)
             (finalFilePath cfg (request_uuid env)) 0 False 0 w = (None, w1)"
    using assms(2) by (metis fst_conv surj_pair)
  obtain r w2 where e: "embed_step cfg (the (url req)) (finalFilePath cfg (request_uuid env)) env w1
      = (r, w2)"
    by (cases "embed_step cfg (the (url req)) (finalFilePath cfg (request_uuid env)) env w1")
  have "r = (case info_refetch env of FetchSpawnError msg \<Rightarrow> Some msg | FetchClose c eo p \<Rightarrow> None)"
    using embed_step_result [of cfg "the (url req)" "finalFilePath cfg (request_uuid env)" env w1] e
    by simp
  then show ?thesis
    by (simp add: download_stages [OF assms(1)] l e split: fetch_end.splits)
qed

lemma download_retry_events:
  assumes "truthy (url req)"
  shows "retry_events (trace (snd (download cfg req env w))) =
         retry_events (trace (snd (retry_loop (attempts env)
             (download_args cfg (baseOutput cfg (request_uuid env)) req)
             (finalFilePath cfg (request_uuid env)) 0 False 0 w)))"
proof -
  obtain r w1 where l: "retry_loop (attempts env)
             (download_args cfg (baseOutput cfg (request_uuid env)) req)
             (finalFilePath cfg (request_uuid env)) 0 False 0 w = (r, w1)"
    by (cases "retry_loop (attempts env)
             (download_args cfg (baseOutput cfg (request_uuid env)) req)
             (finalFilePath cfg (request_uuid env)) 0 False 0 w")
  show ?thesis
  proof (cases r)
    case (Some resp)
    then show ?thesis by (simp add: download_stages [OF assms] l)
  next
    case None
    obtain m w2 where e: "embed_step cfg (the (url req)) (finalFilePath cfg (request_uuid env)) env w1
        = (m, w2)"
      by (cases "embed_step cfg (the (url req)) (finalFilePath cfg (request_uuid env)) env w1")
    obtain t where t: "trace w2 = trace w1 @ t" "retry_events t = []"
      using embed_step_trace [of cfg "the (url req)" "finalFilePath cfg (request_uuid env)" env w1] e
      by auto
    have c: "retry_events [Emit (Complete (request_uuid env @ ''.mp4''))] = []"
      by (simp add: retry_events_def is_retry_announcement_def)
    show ?thesis
      using None t c
      by (cases m)
         (simp_all add: download_stages [OF assms] l e log_effects_def retry_events_append)
  qed
qed

text \<open>The three announcements the loop can emit, as the client reads them.\<close>

lemma retry_announcement_text:
  "retry_announcement 1 = StatusPercent ''Retrying download... (1/3)'' 0
   \<and> retry_announcement 2 = StatusPercent ''Retrying download... (2/3)'' 0
   \<and> retry_announcement 3 = StatusPercent ''Retrying download... (3/3)'' 0"
  by code_simp

text \<open>
  Claim C1. The handler runs the loop from \<open>retryCount = 0\<close>. An attempt rejects
  exactly when it fails in one of the four ways (exit code other than 0, failure to start,
  the 15-minute timer, or the missing file after exit code 0). When the first \<open>n\<close>
  attempts fail and the next one, if the count of 3 allows one, succeeds, the loop starts
  \<open>n\<close> attempts, each with its 15-minute timer; the \<open>i\<close>-th of them is followed by the
  progress event with the status \<open>Retrying download... (i/3)\<close> and the progress 0, and,
  unless it is the third, by a pause of 3000 ms; one more attempt is started only if
  \<open>n < 3\<close>.
\<close>

theorem retry_policy:
  assumes "n \<le> maxRetries"
    and "\<forall>i<n. attempt_fails final (env i) (files_before env 0 (files w) i)"
    and "n < maxRetries \<longrightarrow> \<not> attempt_fails final (env n) (files_before env 0 (files w) n)"
  shows "filter is_control (trace (snd (retry_loop env args final 0 False 0 w))) =
           filter is_control (trace w)
           @ concat (map (\<lambda>i. [Spawn ''yt-dlp'' args, SetTimeout (15 * 60 * 1000),
                                 Emit (StatusPercent
                                         (if i = 1 then ''Retrying download... (1/3)''
                                          else if i = 2 then ''Retrying download... (2/3)''
                                          else ''Retrying download... (3/3)'') 0)]
                                @ (if i < 3 then [Sleep 3000] else []))
                         [1 ..< n + 1])
           @ (if n < 3 then [Spawn ''yt-dlp'' args, SetTimeout (15 * 60 * 1000)] else [])
         \<and> ((fst (attemptDownload args final a w') = Inr ())
              = (\<not> attempt_fails final a (files w')))"
proof -
  let ?round = "\<lambda>i::nat. [Spawn ''yt-dlp'' args, SetTimeout (15 * 60 * 1000),
                           Emit (StatusPercent
                                   (if i = 1 then ''Retrying download... (1/3)''
                                    else if i = 2 then ''Retrying download... (2/3)''
                                    else ''Retrying download... (3/3)'') 0)]
                          @ (if i < 3 then [Sleep 3000] else [])"
  have spec: "loop_spec env args final 0 n 0 w"
    using assms by (intro loop_run) simp_all
  have round: "failed_round args i = ?round i" if "i \<in> set [1 ..< n + 1]" for i
  proof -
    have "i = 1 \<or> i = 2 \<or> i = 3"
      using that assms(1) by (auto simp: maxRetries_def)
    then show ?thesis
      using retry_announcement_text by (auto simp: failed_round_def)
  qed
  have m: "map (failed_round args) [1 ..< n + 1] = map ?round [1 ..< n + 1]"
    by (rule map_cong [OF refl]) (rule round)
  have c: "filter is_control (trace (snd (retry_loop env args final 0 False 0 w))) =
           filter is_control (trace w)
           @ concat (map (failed_round args) [1 ..< n + 1])
           @ (if n < 3 then [Spawn ''yt-dlp'' args, SetTimeout (15 * 60 * 1000)] else [])"
    using spec by (simp add: loop_spec_def maxRetries_def)
  show ?thesis
    using c by (simp only: m attempt_result simp_thms)
qed

text \<open>
  One failure, then a success: two attempts, the announcement
  \<open>Retrying download... (1/3)\<close>, one pause.
\<close>

theorem retry_policy_witness:
  "filter is_control
     (trace (snd (retry_loop (attempts env_transient) [''https://v/1'']
                    (finalFilePath ex_config ''id1'') 0 False 0 ex_world))) =
     [Spawn ''yt-dlp'' [''https://v/1''], SetTimeout 900000,
      Emit (StatusPercent ''Retrying download... (1/3)'' 0),
      Sleep 3000,
      Spawn ''yt-dlp'' [''https://v/1''], SetTimeout 900000]"
proof -
  have h1: "(1::nat) \<le> maxRetries"
    by (simp add: maxRetries_def)
  have f0: "attempt_fails (finalFilePath ex_config ''id1'') (attempts env_transient 0)
              (files ex_world)"
    by code_simp
  have h2: "\<forall>i<1. attempt_fails (finalFilePath ex_config ''id1'') (attempts env_transient i)
              (files_before (attempts env_transient) 0 (files ex_world) i)"
    using f0 by simp
  have s1: "\<not> attempt_fails (finalFilePath ex_config ''id1'') (attempts env_transient 1)
              (files_before (attempts env_transient) 0 (files ex_world) 1)"
    by code_simp
  have h3: "1 < maxRetries \<longrightarrow>
            \<not> attempt_fails (finalFilePath ex_config ''id1'') (attempts env_transient 1)
              (files_before (attempts env_transient) 0 (files ex_world) 1)"
    using s1 by simp
  have w: "trace ex_world = []"
    by (simp add: ex_world_def)
  show ?thesis
    using retry_policy [OF h1 h2 h3, of "[''https://v/1'']"]
    by (simp add: w)
qed

text \<open>
  Claim C2. When the three attempts of a request fail, the response is HTTP 500 with
  the error \<open>Download failed after retries\<close> and the details of the last failure, and
  it is not a success body.
\<close>

theorem exhausted_retries_fail:
  assumes "truthy (url req)"
    and "\<forall>i<maxRetries.
           attempt_fails (finalFilePath cfg (request_uuid env)) (attempts env i)
             (files_before (attempts env) 0 (files w) i)"
  shows "(\<exists>details. fst (download cfg req env w) =
            Responded (Response 500 (ErrorDetailsBody ''Download failed after retries'' details)))
         \<and> (\<forall>f. fst (download cfg req env w) \<noteq> Responded (Response 200 (SuccessBody f)))"
proof -
  let ?args = "download_args cfg (baseOutput cfg (request_uuid env)) req"
  let ?final = "finalFilePath cfg (request_uuid env)"
  have "loop_spec (attempts env) ?args ?final 0 maxRetries 0 w"
    using assms(2) by (intro loop_run) simp_all
  then obtain msg where
    m: "fst (retry_loop (attempts env) ?args ?final 0 False 0 w) =
          Some (Response 500 (ErrorDetailsBody ''Download failed after retries'' msg))"
    by (auto simp: loop_spec_def maxRetries_def)
  obtain w1 where
    l: "retry_loop (attempts env) ?args ?final 0 False 0 w =
          (Some (Response 500 (ErrorDetailsBody ''Download failed after retries'' msg)), w1)"
    using m by (metis fst_conv surj_pair)
  have "fst (download cfg req env w) =
          Responded (Response 500 (ErrorDetailsBody ''Download failed after retries'' msg))"
    by (simp add: download_stages [OF assms(1)] l)
  then show ?thesis by simp
qed

theorem exhausted_retries_fail_witness:
  "(\<exists>details. fst (download ex_config ex_request env_all_fail ex_world) =
      Responded (Response 500 (ErrorDetailsBody ''Download failed after retries'' details)))
   \<and> (\<forall>f. fst (download ex_config ex_request env_all_fail ex_world) \<noteq>
          Responded (Response 200 (SuccessBody f)))"
proof -
  have h1: "truthy (url ex_request)"
    by (simp add: ex_request_def truthy_def)
  have h2: "\<forall>i<maxRetries.
           attempt_fails (finalFilePath ex_config (request_uuid env_all_fail))
             (attempts env_all_fail i)
             (files_before (attempts env_all_fail) 0 (files ex_world) i)"
    by (simp add: env_all_fail_def attempt_fails_def run_exit1_def)
  show ?thesis
    using exhausted_retries_fail [OF h1 h2] by simp
qed

text \<open>
  Claim C3. A request whose first attempt fails and whose second attempt succeeds gets
  the same response as a request with the same identifier and the same re-fetch whose
  first attempt succeeds, namely the success body whenever the re-fetch process could be
  started, and it emits exactly one retry announcement, where the other emits none.
\<close>

theorem transient_failure_then_success:
  assumes "truthy (url req)"
    and "attempt_fails (finalFilePath cfg (request_uuid env)) (attempts env 0) (files w)"
    and "\<not> attempt_fails (finalFilePath cfg (request_uuid env)) (attempts env 1)
           (write_files (written (attempts env 0)) (files w))"
    and "\<not> attempt_fails (finalFilePath cfg (request_uuid env')) (attempts env' 0) (files w')"
    and "request_uuid env' = request_uuid env"
    and "info_refetch env' = info_refetch env"
  shows "fst (download cfg req env w) = fst (download cfg req env' w')
         \<and> ((\<exists>c eo p. info_refetch env = FetchClose c eo p) \<longrightarrow>
              fst (download cfg req env w) =
                Responded (Response 200 (SuccessBody (request_uuid env @ ''.mp4''))))
         \<and> retry_events (trace (snd (download cfg req env w))) =
              retry_events (trace w) @ [retry_announcement 1]
         \<and> retry_events (trace (snd (download cfg req env' w'))) = retry_events (trace w')"
proof -
  let ?args = "download_args cfg (baseOutput cfg (request_uuid env)) req"
  let ?final = "finalFilePath cfg (request_uuid env)"
  let ?args' = "download_args cfg (baseOutput cfg (request_uuid env')) req"
  let ?final' = "finalFilePath cfg (request_uuid env')"
  have s1: "loop_spec (attempts env) ?args ?final 0 1 0 w"
    using assms(2,3) by (intro loop_run) (simp_all add: maxRetries_def)
  have s0: "loop_spec (attempts env') ?args' ?final' 0 0 0 w'"
    using assms(4) by (intro loop_run) (simp_all add: maxRetries_def)
  have n1: "fst (retry_loop (attempts env) ?args ?final 0 False 0 w) = None"
    using s1 by (simp add: loop_spec_def maxRetries_def)
  have n0: "fst (retry_loop (attempts env') ?args' ?final' 0 False 0 w') = None"
    using s0 by (simp add: loop_spec_def maxRetries_def)
  have d1: "fst (download cfg req env w) =
           (case info_refetch env of
              FetchSpawnError msg \<Rightarrow> ServerDied msg
            | FetchClose c eo p \<Rightarrow>
                Responded (Response 200 (SuccessBody (request_uuid env @ ''.mp4''))))"
    by (rule download_after_loop [OF assms(1) n1])
  have d0: "fst (download cfg req env' w') =
           (case info_refetch env' of
              FetchSpawnError msg \<Rightarrow> ServerDied msg
            | FetchClose c eo p \<Rightarrow>
                Responded (Response 200 (SuccessBody (request_uuid env' @ ''.mp4''))))"
    by (rule download_after_loop [OF assms(1) n0])
  have a: "fst (download cfg req env w) = fst (download cfg req env' w')"
    using assms(5,6) by (simp add: d1 d0 split: fetch_end.splits)
  have b: "(\<exists>c eo p. info_refetch env = FetchClose c eo p) \<longrightarrow>
              fst (download cfg req env w) =
                Responded (Response 200 (SuccessBody (request_uuid env @ ''.mp4'')))"
    by (auto simp: d1)
  have r1: "retry_events (trace (snd (download cfg req env w))) =
              retry_events (trace w) @ [retry_announcement 1]"
    using loop_retry_events [OF s1] by (simp add: download_retry_events [OF assms(1)])
  have r0: "retry_events (trace (snd (download cfg req env' w'))) = retry_events (trace w')"
    using loop_retry_events [OF s0] by (simp add: download_retry_events [OF assms(1)])
  from a b r1 r0 show ?thesis by blast
qed

theorem transient_failure_then_success_witness:
  "fst (download ex_config ex_request env_transient ex_world) =
     fst (download ex_config ex_request env_immediate ex_world)
   \<and> fst (download ex_config ex_request env_transient ex_world) =
       Responded (Response 200 (SuccessBody ''id1.mp4''))
   \<and> retry_events (trace (snd (download ex_config ex_request env_transient ex_world))) =
       [retry_announcement 1]
   \<and> retry_events (trace (snd (download ex_config ex_request env_immediate ex_world))) = []"
proof -
  have h1: "truthy (url ex_request)"
    by (simp add: ex_request_def truthy_def)
  have h2: "attempt_fails (finalFilePath ex_config (request_uuid env_transient))
              (attempts env_transient 0) (files ex_world)"
    by code_simp
  have h3: "\<not> attempt_fails (finalFilePath ex_config (request_uuid env_transient))
              (attempts env_transient 1)
              (write_files (written (attempts env_transient 0)) (files ex_world))"
    by code_simp
  have h4: "\<not> attempt_fails (finalFilePath ex_config (request_uuid env_immediate))
              (attempts env_immediate 0) (files ex_world)"
    by code_simp
  have h5: "request_uuid env_immediate = request_uuid env_transient"
    by (simp add: env_immediate_def env_transient_def)
  have h6: "info_refetch env_immediate = info_refetch env_transient"
    by (simp add: env_immediate_def env_transient_def)
  have i: "\<exists>c eo p. info_refetch env_transient = FetchClose c eo p"
    by (simp add: env_transient_def ex_info_def)
  have u: "request_uuid env_transient = ''id1''"
    by (simp add: env_transient_def)
  have w: "retry_events (trace ex_world) = []"
    by (simp add: ex_world_def retry_events_def)
  show ?thesis
    using transient_failure_then_success [OF h1 h2 h3 h4 h5 h6] i
    by (auto simp: u w)
qed

text \<open>A rejection of the re-fetch or of the embedder leaves the success response.\<close>

lemma metadata_rejections_keep_success:
  assumes "truthy (url req)"
    and "\<not> attempt_fails (finalFilePath cfg (request_uuid env)) (attempts env 0) (files w)"
    and "info_refetch env = FetchClose c eo p"
  shows "fst (download cfg req env w) =
           Responded (Response 200 (SuccessBody (request_uuid env @ ''.mp4'')))"
proof -
  let ?args = "download_args cfg (baseOutput cfg (request_uuid env)) req"
  let ?final = "finalFilePath cfg (request_uuid env)"
  have "loop_spec (attempts env) ?args ?final 0 0 0 w"
    using assms(2) by (intro loop_run) (simp_all add: maxRetries_def)
  then have "fst (retry_loop (attempts env) ?args ?final 0 False 0 w) = None"
    by (simp add: loop_spec_def maxRetries_def)
  then show ?thesis
    using download_after_loop [OF assms(1)] assms(3) by simp
qed

text \<open>
  Claim C4 fails on the code. \<open>fetchVideoInfo\<close> registers no \<open>error\<close> listener on the
  process it spawns, as \<open>attemptDownload\<close> and the \<open>/api/info\<close> handler do. When the
  first attempt succeeds and the Extractor then cannot be started for the re-fetch, the
  \<open>error\<close> event is thrown as an uncaught exception and the client gets no response.
\<close>

theorem refetch_spawn_failure_ends_server:
  "fst (attemptDownload (download_args ex_config (baseOutput ex_config ''id1'') ex_request)
          (finalFilePath ex_config ''id1'') (attempts env_refetch_unstartable 0) ex_world) =
     Inr ()
   \<and> fst (download ex_config ex_request env_refetch_unstartable ex_world) =
       ServerDied ''spawn yt-dlp EAGAIN''"
  by code_simp

lemma download_args_suffix:
  "\<exists>pre. download_args cfg base req =
     pre @ [''--merge-output-format'', ''mp4'',
            ''--postprocessor-args'', ''-c:v copy -c:a aac -b:a 192k'']"
proof -
  have "filter not_blank [''--merge-output-format'', ''mp4'',
            ''--postprocessor-args'', ''-c:v copy -c:a aac -b:a 192k'']
        = [''--merge-output-format'', ''mp4'',
            ''--postprocessor-args'', ''-c:v copy -c:a aac -b:a 192k'']"
    by (simp add: not_blank_def is_space_def)
  then show ?thesis
    unfolding download_args_def filter_append by (metis append.assoc)
qed

text \<open>
  Claim C10. Whatever the request asks for, a success response names the file
  \<open><request-id>.mp4\<close>, the last effect of the request is the completion event with
  that name, and the Extractor was started with arguments that end with
  \<open>--merge-output-format mp4\<close> and the fixed postprocessor arguments.
\<close>

theorem download_file_name:
  "(fst (download cfg req env w) = Responded (Response 200 (SuccessBody f)) \<longrightarrow>
      f = request_uuid env @ ''.mp4''
      \<and> last (trace (snd (download cfg req env w))) =
          Emit (Complete (request_uuid env @ ''.mp4''))
      \<and> Spawn ''yt-dlp'' (download_args cfg (baseOutput cfg (request_uuid env)) req)
          \<in> set (trace (snd (download cfg req env w))))
   \<and> (\<exists>pre. download_args cfg (baseOutput cfg (request_uuid env)) req =
          pre @ [''--merge-output-format'', ''mp4'',
                 ''--postprocessor-args'', ''-c:v copy -c:a aac -b:a 192k''])"
proof (intro conjI impI)
  show "\<exists>pre. download_args cfg (baseOutput cfg (request_uuid env)) req =
          pre @ [''--merge-output-format'', ''mp4'',
                 ''--postprocessor-args'', ''-c:v copy -c:a aac -b:a 192k'']"
    by (rule download_args_suffix)
next
  assume ok: "fst (download cfg req env w) = Responded (Response 200 (SuccessBody f))"
  let ?args = "download_args cfg (baseOutput cfg (request_uuid env)) req"
  let ?final = "finalFilePath cfg (request_uuid env)"
  let ?file = "request_uuid env @ ''.mp4''"
  have u: "truthy (url req)"
    using ok by (auto simp: download_def split: if_splits)
  obtain r w1 where l: "retry_loop (attempts env) ?args ?final 0 False 0 w = (r, w1)"
    by (cases "retry_loop (attempts env) ?args ?final 0 False 0 w")
  have r: "r = None"
  proof (cases r)
    case None
    then show ?thesis .
  next
    case (Some resp)
    then obtain msg where
      "resp = Response 500 (ErrorDetailsBody ''Download failed after retries'' msg)"
      using loop_response_500 [of "attempts env" ?args ?final 0 False 0 w resp] l by auto
    then show ?thesis
      using ok Some by (simp add: download_stages [OF u] l)
  qed
  obtain m w2 where e: "embed_step cfg (the (url req)) ?final env w1 = (m, w2)"
    by (cases "embed_step cfg (the (url req)) ?final env w1")
  have m: "m = None"
    using ok by (cases m) (simp_all add: download_stages [OF u] l r e)
  have d: "download cfg req env w =
     (Responded (Response 200 (SuccessBody ?file)),
      log_effects [Emit (Complete ?file)]
        (w2\<lparr>files := cleanup_temp (downloadsDir cfg) (request_uuid env) (files w2)\<rparr>))"
    by (simp add: download_stages [OF u] l r e m)
  have s1: "Spawn ''yt-dlp'' ?args \<in> set (trace w1)"
    using loop_spawns [of 0 ?args "attempts env" ?final 0 w] l by (simp add: maxRetries_def)
  obtain t where t: "trace w2 = trace w1 @ t"
    using embed_step_trace [of cfg "the (url req)" ?final env w1] e by auto
  show "f = ?file"
    using ok by (simp add: d)
  show "last (trace (snd (download cfg req env w))) = Emit (Complete ?file)"
    by (simp add: d log_effects_def)
  show "Spawn ''yt-dlp'' ?args \<in> set (trace (snd (download cfg req env w)))"
    using s1 t by (simp add: d log_effects_def)
qed

theorem download_file_name_witness:
  "last (trace (snd (download ex_config ex_request env_immediate ex_world))) =
     Emit (Complete ''id1.mp4'')
   \<and> Spawn ''yt-dlp'' (download_args ex_config (baseOutput ex_config ''id1'') ex_request)
       \<in> set (trace (snd (download ex_config ex_request env_immediate ex_world)))"
proof -
  have h1: "truthy (url ex_request)"
    by (simp add: ex_request_def truthy_def)
  have h2: "\<not> attempt_fails (finalFilePath ex_config (request_uuid env_immediate))
              (attempts env_immediate 0) (files ex_world)"
    by code_simp
  have h3: "info_refetch env_immediate = FetchClose (Some 0) []
              (InfoObject (Some ''T'') None (Some ''https://i/t.jpg''))"
    by (simp add: env_immediate_def ex_info_def)
  have u: "request_uuid env_immediate = ''id1''"
    by (simp add: env_immediate_def)
  have ok: "fst (download ex_config ex_request env_immediate ex_world) =
              Responded (Response 200 (SuccessBody ''id1.mp4''))"
    using metadata_rejections_keep_success [OF h1 h2 h3] by (simp add: u)
  show ?thesis
    using download_file_name [of ex_config ex_request env_immediate ex_world "''id1.mp4''"] ok
    by (simp add: u)
qed

end
